theory Spec2Isabelle
  imports Main "HOL-Library.Sublist" "HOL-Library.Char_ord" "HOL-Library.List_Lexorder"
begin

section \<open>Python values\<close>

text \<open>
  The dictionaries handled by the tracker (the parser's \<open>info\<close> dicts and the entries of
  \<open>data/notified.json\<close>) hold \<open>None\<close>, integers and strings. A dictionary is an
  association list; \<open>d.get(k)\<close> yields \<open>None\<close> for a missing key. Strings are byte
  strings, and \<open>str.lower\<close> is modelled on ASCII letters.
\<close>

datatype pyval = PNone | PInt int | PStr string

datatype error = TypeError | AttributeError | RuntimeError | RequestError

type_synonym pydict = "(string \<times> pyval) list"

definition dget :: "pydict \<Rightarrow> string \<Rightarrow> pyval" where
  "dget d k = (case map_of d k of None \<Rightarrow> PNone | Some v \<Rightarrow> v)"

fun truthy :: "pyval \<Rightarrow> bool" where
  "truthy PNone = False"
| "truthy (PInt n) = (n \<noteq> 0)"
| "truthy (PStr s) = (s \<noteq> [])"

text \<open>\<open>a < b\<close>: defined between two integers and between two strings, a
  \<open>TypeError\<close> otherwise.\<close>

fun py_lt :: "pyval \<Rightarrow> pyval \<Rightarrow> error + bool" where
  "py_lt (PInt a) (PInt b) = Inr (a < b)"
| "py_lt (PStr a) (PStr b) = Inr (a < b)"
| "py_lt _ _ = Inl TypeError"

text \<open>\<open>a > b\<close> is \<open>b < a\<close>.\<close>

definition py_gt :: "pyval \<Rightarrow> pyval \<Rightarrow> error + bool" where
  "py_gt a b = py_lt b a"

text \<open>\<open>a or b\<close> on values.\<close>

definition py_or :: "pyval \<Rightarrow> pyval \<Rightarrow> pyval" where
  "py_or a b = (if truthy a then a else b)"

definition lower_char :: "char \<Rightarrow> char" where
  "lower_char c =
     (let n = (of_char c :: nat) in if 65 \<le> n \<and> n \<le> 90 then char_of (n + 32) else c)"

definition lower :: "string \<Rightarrow> string" where
  "lower s = map lower_char s"

text \<open>\<open>v.lower()\<close>: only strings have the method.\<close>

fun py_lower :: "pyval \<Rightarrow> error + string" where
  "py_lower (PStr s) = Inr (lower s)"
| "py_lower _ = Inl AttributeError"

text \<open>\<open>any(token in s for token in tokens)\<close>: substring tests.\<close>

definition any_token_in :: "string list \<Rightarrow> string \<Rightarrow> bool" where
  "any_token_in tokens s = list_ex (\<lambda>token. sublist token s) tokens"

section \<open>parser.py\<close>

subsection \<open>\<open>is_section_open\<close>\<close>

definition is_section_open :: "pydict \<Rightarrow> error + bool" where
  "is_section_open info =
     (let seats_available = dget info ''seats_available'' in
      if seats_available \<noteq> PNone then py_gt seats_available (PInt 0)
      else
        let en = dget info ''enrolled''; cap = dget info ''capacity'' in
        if en \<noteq> PNone \<and> cap \<noteq> PNone then py_lt en cap
        else
          (case py_lower (py_or (dget info ''status_text'') (PStr [])) of
             Inl e \<Rightarrow> Inl e
           | Inr status \<Rightarrow>
               if status \<noteq> [] then
                 (if any_token_in [''open'', ''available'', ''seat''] status then Inr True
                  else if any_token_in
                            [''full'', ''closed'', ''waitlist'', ''wait list'', ''wl''] status
                       then Inr False
                  else Inr False)
               else Inr False))"

text \<open>The field types the parser's docstring gives for an info dict.\<close>

fun int_or_none :: "pyval \<Rightarrow> bool" where
  "int_or_none PNone = True"
| "int_or_none (PInt n) = True"
| "int_or_none (PStr s) = False"

fun str_or_none :: "pyval \<Rightarrow> bool" where
  "str_or_none PNone = True"
| "str_or_none (PStr s) = True"
| "str_or_none (PInt n) = False"

definition well_formed_info :: "pydict \<Rightarrow> bool" where
  "well_formed_info info \<longleftrightarrow>
     str_or_none (dget info ''label'') \<and>
     int_or_none (dget info ''enrolled'') \<and>
     int_or_none (dget info ''capacity'') \<and>
     int_or_none (dget info ''seats_available'') \<and>
     str_or_none (dget info ''status_text'')"

subsection \<open>\<open>parse_row_element\<close>\<close>

text \<open>
  What \<open>parse_row_element\<close> reads from a BeautifulSoup row: the flattened text
  \<open>tr.get_text(" ", strip=True)\<close>, and the stripped text of the elements found by
  \<open>select_one("td a.stopbubble")\<close>, \<open>select_one("a")\<close> and the status-span selector
  (\<open>None\<close> when the selector finds nothing).
\<close>

record row =
  row_text :: string
  stopbubble_anchor :: "string option"
  first_anchor :: "string option"
  status_span :: "string option"

text \<open>
  The three compiled patterns are parameters: each maps a text to the integer value of
  the groups of its first match (\<open>int(m.group(i))\<close>), or to \<open>None\<close> when
  \<open>search\<close> finds no match.
\<close>

record patterns =
  NUMERIC_SLASH_RE :: "string \<Rightarrow> (int \<times> int) option"
  ENRL_CAP_RE :: "string \<Rightarrow> (int \<times> int) option"
  SEATS_AVAILABLE_RE :: "string \<Rightarrow> int option"

definition scan_status :: "string \<Rightarrow> pyval" where
  "scan_status t =
     (if sublist ''full'' t then PStr ''full''
      else if sublist ''open'' t \<or> sublist ''available'' t \<or> sublist ''seats available'' t
              \<or> sublist ''seat available'' t then PStr ''open''
      else if sublist ''waitlist'' t \<or> sublist ''wait list'' t \<or> sublist ''wl'' t
           then PStr ''waitlist''
      else if sublist ''closed'' t then PStr ''closed''
      else PNone)"

definition parse_row_element :: "patterns \<Rightarrow> row \<Rightarrow> pydict" where
  "parse_row_element re tr =
     (let text = row_text tr;
          anchor_tag = (case stopbubble_anchor tr of None \<Rightarrow> first_anchor tr | Some a \<Rightarrow> Some a);
          label = (case anchor_tag of None \<Rightarrow> PNone | Some a \<Rightarrow> PStr a);
          status_text = (case status_span tr of None \<Rightarrow> PNone | Some s \<Rightarrow> PStr (lower s));
          (enrolled, capacity) =
            (case NUMERIC_SLASH_RE re text of
               Some (e, c) \<Rightarrow> (PInt e, PInt c)
             | None \<Rightarrow>
                 (case ENRL_CAP_RE re text of
                    Some (e, c) \<Rightarrow> (PInt e, PInt c)
                  | None \<Rightarrow> (PNone, PNone)));
          seats_available = (case SEATS_AVAILABLE_RE re text of None \<Rightarrow> PNone | Some n \<Rightarrow> PInt n);
          status_text = (if \<not> truthy status_text then scan_status (lower text) else status_text)
      in [(''label'', label),
          (''enrolled'', enrolled),
          (''capacity'', capacity),
          (''seats_available'', seats_available),
          (''status_text'', status_text),
          (''raw'', PStr text)])"

section \<open>Timestamps\<close>

text \<open>
  A \<open>datetime\<close> is a count of microseconds since the epoch and a flag telling whether it
  carries a time zone. \<open>datetime.now(timezone.utc)\<close> is aware, \<open>datetime.utcnow()\<close> is
  naive, and subtracting a naive from an aware datetime (or the reverse) raises
  \<open>TypeError\<close>. The current time is a parameter \<open>now\<close> of each decision, in
  microseconds; durations compared with it are exact integers of microseconds.
  \<open>datetime.fromisoformat\<close> is a parameter too: it maps a string to the datetime it
  denotes, or to \<open>None\<close> where the library raises \<open>ValueError\<close>.
\<close>

record datetime =
  micros :: int
  aware :: bool

text \<open>\<open>datetime.fromisoformat(v)\<close> inside \<open>try ... except Exception\<close>: a value that is
  not a string raises \<open>TypeError\<close>, an unparsable string \<open>ValueError\<close>; both are caught.\<close>

definition parse_iso :: "(string \<Rightarrow> datetime option) \<Rightarrow> pyval \<Rightarrow> datetime option" where
  "parse_iso fromisoformat v = (case v of PStr s \<Rightarrow> fromisoformat s | _ \<Rightarrow> None)"

text \<open>\<open>now - dt\<close> for the aware \<open>now\<close> of runner.py and for the naive \<open>now\<close> of
  notifier.py.\<close>

definition aware_sub :: "int \<Rightarrow> datetime \<Rightarrow> error + int" where
  "aware_sub now dt = (if aware dt then Inr (now - micros dt) else Inl TypeError)"

definition naive_sub :: "int \<Rightarrow> datetime \<Rightarrow> error + int" where
  "naive_sub now dt = (if aware dt then Inl TypeError else Inr (now - micros dt))"

text \<open>The state file \<open>data/notified.json\<close>: a dictionary from labels to entries.\<close>

type_synonym state = "string \<Rightarrow> pydict option"

section \<open>notifier.py\<close>

text \<open>\<open>timedelta(hours=1)\<close>, in microseconds.\<close>

definition RENOTIFY_AFTER :: int where
  "RENOTIFY_AFTER = 3600 * 1000000"

text \<open>\<open>"open" if is_open else "closed"\<close>\<close>

definition status_word :: "bool \<Rightarrow> pyval" where
  "status_word is_open = PStr (if is_open then ''open'' else ''closed'')"

text \<open>\<open>should_notify(label, is_open)\<close>; \<open>state\<close> is what \<open>_load_state()\<close> returns.\<close>

definition notifier_should_notify ::
  "(string \<Rightarrow> datetime option) \<Rightarrow> int \<Rightarrow> state \<Rightarrow> string \<Rightarrow> bool \<Rightarrow> error + bool" where
  "notifier_should_notify fromisoformat now state label is_open =
     (case state label of
        None \<Rightarrow> Inr True
      | Some entry \<Rightarrow>
          if entry = [] then Inr True
          else
            let last_status = dget entry ''last_status'';
                last_notified_iso = dget entry ''last_notified''
            in (case parse_iso fromisoformat last_notified_iso of
                  None \<Rightarrow> Inr True
                | Some last_notified \<Rightarrow>
                    if last_status \<noteq> status_word is_open then Inr True
                    else if is_open then
                      (case naive_sub now last_notified of
                         Inl e \<Rightarrow> Inl e
                       | Inr d \<Rightarrow> if d > RENOTIFY_AFTER then Inr True else Inr False)
                    else Inr False))"

text \<open>\<open>mark_notified(label, is_open)\<close>; \<open>now_iso\<close> is
  \<open>datetime.utcnow().isoformat()\<close>. The result is the state written back.\<close>

definition notifier_mark_notified :: "string \<Rightarrow> state \<Rightarrow> string \<Rightarrow> bool \<Rightarrow> state" where
  "notifier_mark_notified now_iso state label is_open =
     state(label \<mapsto> [(''last_status'', status_word is_open),
                     (''last_notified'', PStr now_iso)])"

text \<open>The outcome of one \<open>requests.post\<close>: an exception, or a response with its status
  code and JSON body.\<close>

datatype post_result = PostRaises | Response nat pydict

text \<open>\<open>_post_to_discord\<close>; \<open>webhook\<close> tells whether \<open>DISCORD_WEBHOOK_URL\<close> is set.\<close>

definition post_to_discord :: "bool \<Rightarrow> post_result \<Rightarrow> error + bool" where
  "post_to_discord webhook post =
     (if \<not> webhook then Inl RuntimeError
      else case post of
             PostRaises \<Rightarrow> Inl RequestError
           | Response status_code body \<Rightarrow> Inr (status_code = 200 \<or> status_code = 204))"

text \<open>\<open>notify_open\<close>: building the embed can only fail at
  \<open>(section_info.get("raw") or "").strip()\<close>; the result is that of the POST.\<close>

definition notify_open :: "bool \<Rightarrow> post_result \<Rightarrow> pydict \<Rightarrow> error + bool" where
  "notify_open webhook post section_info =
     (case py_or (dget section_info ''raw'') (PStr []) of
        PStr raw \<Rightarrow> post_to_discord webhook post
      | _ \<Rightarrow> Inl AttributeError)"

section \<open>runner.py\<close>

text \<open>\<open>should_notify(label, info, notified_state, backoff_seconds)\<close>. The elapsed time
  \<open>(now - last_dt).total_seconds()\<close> is kept in microseconds. The source compares the
  float that \<open>total_seconds()\<close> returns with \<open>backoff_seconds\<close>; comparing the exact
  microseconds gives the same answer as long as \<open>0 \<le> backoff_seconds < 2 ^ 34\<close> (the
  float then cannot round a shorter duration up to the backoff), which covers the default
  3600 that \<open>main\<close> uses. Above that bound the comparison of the source can differ, and
  the properties below that depend on it are stated within the bound.\<close>

definition runner_should_notify ::
  "(string \<Rightarrow> datetime option) \<Rightarrow> int \<Rightarrow> string \<Rightarrow> pydict \<Rightarrow> state \<Rightarrow> int \<Rightarrow> error + bool" where
  "runner_should_notify fromisoformat now label info notified_state backoff_seconds =
     (case notified_state label of
        None \<Rightarrow> Inr True
      | Some entry \<Rightarrow>
          let last = dget entry ''last_notified'' in
          if \<not> truthy last then Inr True
          else
            (case parse_iso fromisoformat last of
               None \<Rightarrow> Inr True
             | Some last_dt \<Rightarrow>
                (case aware_sub now last_dt of
                   Inl e \<Rightarrow> Inl e
                 | Inr elapsed \<Rightarrow>
                     if elapsed \<ge> backoff_seconds * 1000000 then
                       (let prev_status = dget entry ''last_status'' in
                        if dget info ''status_text'' \<noteq> prev_status then Inr True
                        else if dget info ''enrolled'' \<noteq> PNone
                                \<and> dget entry ''enrolled'' \<noteq> PNone then
                          (case py_lt (dget info ''enrolled'') (dget entry ''enrolled'') of
                             Inl e \<Rightarrow> Inl e
                           | Inr b \<Rightarrow> if b then Inr True else Inr False)
                        else Inr False)
                     else Inr False)))"

text \<open>\<open>mark_notified(label, info, notified_state)\<close>; \<open>now_iso\<close> is
  \<open>datetime.now(timezone.utc).isoformat()\<close>.\<close>

definition runner_mark_notified :: "string \<Rightarrow> string \<Rightarrow> pydict \<Rightarrow> state \<Rightarrow> state" where
  "runner_mark_notified now_iso label info notified_state =
     notified_state(label \<mapsto> [(''last_notified'', PStr now_iso),
                              (''last_status'', dget info ''status_text''),
                              (''enrolled'', dget info ''enrolled'')])"

text \<open>\<open>notify_users\<close>: for each subscriber the outcome of the POST opening the DM
  channel and of the POST sending the message. A status other than 200 is printed and the
  loop goes on; only an exception of \<open>requests\<close> leaves the function.\<close>

fun notify_users :: "(post_result \<times> post_result) list \<Rightarrow> error + unit" where
  "notify_users [] = Inr ()"
| "notify_users ((r, r2) # rest) =
     (case r of
        PostRaises \<Rightarrow> Inl RequestError
      | Response status_code dm \<Rightarrow>
          if status_code \<noteq> 200 then notify_users rest
          else if \<not> truthy (dget dm ''id'') then notify_users rest
          else (case r2 of
                  PostRaises \<Rightarrow> Inl RequestError
                | Response status_code2 body \<Rightarrow> notify_users rest))"

text \<open>The body of the loop of \<open>main\<close> (reached when \<open>DISCORD_BOT_TOKEN\<close> is set)
  for one label, from the parsed rows on. Every
  exception is caught by the loop's \<open>except Exception\<close>, which leaves \<open>notified\<close> as it
  is. \<open>posts\<close> are the outcomes of the requests \<open>notify_users\<close> makes.\<close>

definition runner_check_label ::
  "(string \<Rightarrow> datetime option) \<Rightarrow> int \<Rightarrow> string \<Rightarrow> (post_result \<times> post_result) list \<Rightarrow>
     string \<Rightarrow> pydict list \<Rightarrow> state \<Rightarrow> state" where
  "runner_check_label fromisoformat now now_iso posts label rows notified =
     (case find (\<lambda>r. dget r ''label'' = PStr label) rows of
        None \<Rightarrow> notified
      | Some info \<Rightarrow>
          (case is_section_open info of
             Inl e \<Rightarrow> notified
           | Inr is_open \<Rightarrow>
               (case runner_should_notify fromisoformat now label info notified 3600 of
                  Inl e \<Rightarrow> notified
                | Inr notify \<Rightarrow>
                    if notify then
                      (case notify_users posts of
                         Inl e \<Rightarrow> notified
                       | Inr u \<Rightarrow> runner_mark_notified now_iso label info notified)
                    else notified)))"

section \<open>checker\_playwright.py\<close>

text \<open>\<open>label = match.get("label") or "unknown"\<close>. \<open>main\<close> gets here only with a match
  whose label is a non-empty string (it passed \<open>startswith\<close>).\<close>

definition match_label :: "pydict \<Rightarrow> string" where
  "match_label match =
     (case py_or (dget match ''label'') (PStr ''unknown'') of
        PStr s \<Rightarrow> s
      | _ \<Rightarrow> ''unknown'')"

text \<open>The end of \<open>main\<close>, from the matching row on. \<open>is_section_open\<close> is called
  outside the \<open>try\<close> blocks; the notifier's exceptions are caught and printed.\<close>

definition checker_notify ::
  "(string \<Rightarrow> datetime option) \<Rightarrow> int \<Rightarrow> string \<Rightarrow> bool \<Rightarrow> post_result \<Rightarrow>
     pydict \<Rightarrow> state \<Rightarrow> error + state" where
  "checker_notify fromisoformat now now_iso webhook post match state =
     (case is_section_open match of
        Inl e \<Rightarrow> Inl e
      | Inr open_bool \<Rightarrow>
          let label = match_label match in
          if open_bool then
            (case notifier_should_notify fromisoformat now state label True of
               Inl e \<Rightarrow> Inr state
             | Inr notify \<Rightarrow>
                 if notify then
                   (case notify_open webhook post match of
                      Inl e \<Rightarrow> Inr state
                    | Inr sent \<Rightarrow>
                        if sent then Inr (notifier_mark_notified now_iso state label True)
                        else Inr state)
                 else Inr state)
          else Inr (notifier_mark_notified now_iso state label False))"

section \<open>Sample data\<close>

text \<open>\<open>datetime.fromisoformat\<close> on two timestamps, one with a UTC offset (as
  runner.py writes them) and one without (as notifier.py writes them): noon of
  1 January 2025, 1735732800 seconds after the epoch. Other strings are not needed and
  stand for unparsable ones.\<close>

definition sample_fromisoformat :: "string \<Rightarrow> datetime option" where
  "sample_fromisoformat s =
     (if s = ''2025-01-01T12:00:00+00:00''
        then Some \<lparr>micros = 1735732800000000, aware = True\<rparr>
      else if s = ''2025-01-01T12:00:00''
        then Some \<lparr>micros = 1735732800000000, aware = False\<rparr>
      else None)"

text \<open>The three patterns on the row text \<open>CS 4349.003 12 / 30 Open\<close>: the slash
  pattern finds \<open>12 / 30\<close>, the other two find nothing.\<close>

definition sample_patterns :: patterns where
  "sample_patterns =
     \<lparr>NUMERIC_SLASH_RE = (\<lambda>t. if t = ''CS 4349.003 12 / 30 Open'' then Some (12, 30) else None),
      ENRL_CAP_RE = (\<lambda>t. None),
      SEATS_AVAILABLE_RE = (\<lambda>t. None)\<rparr>"

definition sample_row :: row where
  "sample_row =
     \<lparr>row_text = ''CS 4349.003 12 / 30 Open'',
      stopbubble_anchor = Some ''CS 4349.003'',
      first_anchor = Some ''CS 4349.003'',
      status_span = None\<rparr>"

section \<open>Properties of the parser\<close>

lemma dget_simps:
  "dget [] k = PNone"
  "dget ((k', v) # d) k = (if k' = k then v else dget d k)"
  by (simp_all add: dget_def)

lemma lower_tokens:
  "lower ''open'' = ''open''"
  "lower ''available'' = ''available''"
  "lower ''seat'' = ''seat''"
  by (simp_all add: lower_def lower_char_def)

lemma any_open_token_lower:
  assumes "sublist ''open'' s \<or> sublist ''available'' s \<or> sublist ''seat'' s"
  shows "any_token_in [''open'', ''available'', ''seat''] (lower s)"
proof -
  have "sublist (lower t) (lower s)" if "sublist t s" for t
    using that unfolding lower_def by (rule map_mono_sublist)
  with assms have "sublist ''open'' (lower s) \<or> sublist ''available'' (lower s)
      \<or> sublist ''seat'' (lower s)"
    using lower_tokens by metis
  then show ?thesis by (auto simp: any_token_in_def)
qed

text \<open>
  C4. When \<open>seats_available\<close> is present (an integer), \<open>is_section_open\<close> returns
  \<open>seats_available > 0\<close>, whatever \<open>enrolled\<close>, \<open>capacity\<close> and \<open>status_text\<close>
  hold: replacing those three fields by any values leaves the result unchanged. In
  particular a record with \<open>seats_available = 0\<close> and \<open>status_text = "open"\<close> is closed.
\<close>

theorem is_section_open_seats_available:
  "dget info ''seats_available'' = PInt n \<Longrightarrow>
     is_section_open info = Inr (n > 0) \<and>
     is_section_open ((''enrolled'', e) # (''capacity'', c) # (''status_text'', s) # info)
       = Inr (n > 0)"
  by (simp add: is_section_open_def py_gt_def dget_simps)

theorem is_section_open_seats_available_witness:
  "dget [(''seats_available'', PInt 0), (''status_text'', PStr ''open'')] ''seats_available''
     = PInt 0 \<and>
   is_section_open [(''seats_available'', PInt 0), (''status_text'', PStr ''open'')]
     = Inr False"
  using is_section_open_seats_available
    [of "[(''seats_available'', PInt 0), (''status_text'', PStr ''open'')]" 0]
  by (simp add: dget_simps)

lemma is_section_open_well_formed:
  assumes wf: "well_formed_info info"
  shows "\<exists>b. is_section_open info = Inr b"
proof (cases "dget info ''seats_available''")
  case PNone
  show ?thesis
  proof (cases "dget info ''enrolled'' \<noteq> PNone \<and> dget info ''capacity'' \<noteq> PNone")
    case True
    with wf PNone show ?thesis
      by (cases "dget info ''enrolled''"; cases "dget info ''capacity''")
         (auto simp: is_section_open_def well_formed_info_def)
  next
    case False
    with wf PNone show ?thesis
      by (cases "dget info ''status_text''")
         (auto simp: is_section_open_def well_formed_info_def py_or_def)
  qed
next
  case (PInt n)
  then show ?thesis by (simp add: is_section_open_def py_gt_def)
next
  case (PStr s)
  with wf show ?thesis by (simp add: well_formed_info_def)
qed

lemma is_section_open_all_absent:
  assumes "dget info ''seats_available'' = PNone"
    and "dget info ''enrolled'' = PNone"
    and "dget info ''capacity'' = PNone"
    and "dget info ''status_text'' = PNone"
  shows "is_section_open info = Inr False"
  using assms by (simp add: is_section_open_def py_or_def lower_def)

text \<open>Every record the parser produces has the documented field types, so
  \<open>is_section_open\<close> raises nothing on it.\<close>

lemma str_or_none_scan_status: "str_or_none (scan_status t)"
  by (simp add: scan_status_def)

lemma parse_row_element_well_formed: "well_formed_info (parse_row_element re tr)"
  by (simp add: parse_row_element_def dget_simps Let_def well_formed_info_def
      str_or_none_scan_status split: option.split prod.split)

lemma is_section_open_parse_row_element:
  "\<exists>b. is_section_open (parse_row_element re tr) = Inr b"
  by (rule is_section_open_well_formed) (rule parse_row_element_well_formed)

text \<open>
  C8. \<open>is_section_open\<close> raises nothing and returns a boolean on every record whose
  fields have the types the parser documents, and it returns \<open>False\<close> on every record in
  which \<open>seats_available\<close>, \<open>enrolled\<close>, \<open>capacity\<close> and \<open>status_text\<close> are all absent.
\<close>

theorem is_section_open_total:
  "(well_formed_info info \<longrightarrow> (\<exists>b. is_section_open info = Inr b)) \<and>
   (dget info ''seats_available'' = PNone \<and> dget info ''enrolled'' = PNone \<and>
    dget info ''capacity'' = PNone \<and> dget info ''status_text'' = PNone
      \<longrightarrow> is_section_open info = Inr False)"
  by (simp add: is_section_open_well_formed is_section_open_all_absent)

theorem is_section_open_total_witness:
  "well_formed_info [(''label'', PStr ''CS 4349.003''), (''raw'', PStr ''CS 4349.003'')] \<and>
   dget [(''label'', PStr ''CS 4349.003''), (''raw'', PStr ''CS 4349.003'')] ''status_text''
     = PNone \<and>
   is_section_open [(''label'', PStr ''CS 4349.003''), (''raw'', PStr ''CS 4349.003'')]
     = Inr False"
  using is_section_open_total
    [of "[(''label'', PStr ''CS 4349.003''), (''raw'', PStr ''CS 4349.003'')]"]
  by (simp add: well_formed_info_def dget_simps)

text \<open>
  C9. The record produced for a row has \<open>enrolled\<close> and \<open>capacity\<close> both present or
  both absent, and the pair comes from one pattern: from the slash pattern when it matches
  the row text, otherwise from the labelled pattern when that one matches, otherwise both
  are \<open>None\<close>.
\<close>

theorem parse_row_element_enrolled_capacity:
  "(dget (parse_row_element re tr) ''enrolled'' = PNone
      \<longleftrightarrow> dget (parse_row_element re tr) ''capacity'' = PNone) \<and>
   (dget (parse_row_element re tr) ''enrolled'', dget (parse_row_element re tr) ''capacity'') =
     (case NUMERIC_SLASH_RE re (row_text tr) of
        Some (e, c) \<Rightarrow> (PInt e, PInt c)
      | None \<Rightarrow>
          (case ENRL_CAP_RE re (row_text tr) of
             Some (e, c) \<Rightarrow> (PInt e, PInt c)
           | None \<Rightarrow> (PNone, PNone)))"
  by (simp add: parse_row_element_def dget_simps Let_def split: option.split prod.split)

theorem parse_row_element_enrolled_capacity_witness:
  "dget (parse_row_element sample_patterns sample_row) ''enrolled'' = PInt 12 \<and>
   dget (parse_row_element sample_patterns sample_row) ''capacity'' = PInt 30"
  using parse_row_element_enrolled_capacity [of sample_patterns sample_row]
  by (simp add: sample_patterns_def sample_row_def)

text \<open>
  C10. When \<open>seats_available\<close>, \<open>enrolled\<close> and \<open>capacity\<close> are absent and
  \<open>status_text\<close> contains \<open>open\<close>, \<open>available\<close> or \<open>seat\<close>, the section is open,
  whatever else the status text contains (the tokens \<open>full\<close>, \<open>closed\<close>, \<open>waitlist\<close>,
  \<open>wl\<close> included): the open tokens are tested first.
\<close>

theorem is_section_open_open_token_first:
  assumes "dget info ''seats_available'' = PNone"
    and "dget info ''enrolled'' = PNone"
    and "dget info ''capacity'' = PNone"
    and "dget info ''status_text'' = PStr s"
    and "sublist ''open'' s \<or> sublist ''available'' s \<or> sublist ''seat'' s"
  shows "is_section_open info = Inr True"
proof -
  from assms(5) have ne: "s \<noteq> []" by auto
  then have "lower s \<noteq> []" by (simp add: lower_def)
  moreover have "any_token_in [''open'', ''available'', ''seat''] (lower s)"
    using assms(5) by (rule any_open_token_lower)
  ultimately show ?thesis
    using assms(1-4) ne by (simp add: is_section_open_def py_or_def)
qed

theorem is_section_open_open_token_first_witness:
  "sublist ''seat'' ''waitlist full closed wl - 1 seat'' \<and>
   is_section_open [(''status_text'', PStr ''waitlist full closed wl - 1 seat'')] = Inr True"
proof -
  have h: "sublist ''seat'' ''waitlist full closed wl - 1 seat''" by code_simp
  show ?thesis
    using h is_section_open_open_token_first
      [of "[(''status_text'', PStr ''waitlist full closed wl - 1 seat'')]"
          "''waitlist full closed wl - 1 seat''"]
    by (simp add: dget_simps)
qed

section \<open>Properties of the notification decisions\<close>

text \<open>
  The timestamps below: \<open>1735732800000000\<close> is noon of 1 January 2025 in microseconds,
  \<open>1735733100000000\<close> is five minutes later, \<open>1735736400000000\<close> one hour later,
  \<open>1735736460000000\<close> sixty-one minutes later and \<open>1735740000000000\<close> two hours later.
\<close>

subsection \<open>Enrollment drop\<close>

text \<open>
  C1, as the code has it. In runner.py the comparison of \<open>enrolled\<close> with the stored
  value sits inside the test \<open>elapsed >= backoff_seconds\<close>. For a stored entry whose
  timestamp parses to an aware datetime and a record whose \<open>enrolled\<close> is strictly below
  the stored one, \<open>should_notify\<close> returns true exactly when the backoff has elapsed;
  within the backoff it returns false. The backoff is any number of seconds from 0 up to
  \<open>2 ^ 34\<close> (3600 by default).
\<close>

theorem runner_enrollment_drop:
  assumes "notified label = Some entry"
    and "dget entry ''last_notified'' = PStr s"
    and "s \<noteq> []"
    and "fromisoformat s = Some dt"
    and "aware dt"
    and "dget info ''enrolled'' = PInt e"
    and "dget entry ''enrolled'' = PInt p"
    and "e < p"
    and "0 \<le> backoff_seconds"
    and "backoff_seconds < 2 ^ 34"
  shows "runner_should_notify fromisoformat now label info notified backoff_seconds
           = Inr (now - micros dt \<ge> backoff_seconds * 1000000)"
  using assms
  by (simp add: runner_should_notify_def parse_iso_def aware_sub_def Let_def)

theorem runner_enrollment_drop_witness:
  "runner_should_notify sample_fromisoformat 1735736400000000 ''CS 4349.003''
     [(''label'', PStr ''CS 4349.003''), (''enrolled'', PInt 29), (''capacity'', PInt 30),
      (''seats_available'', PNone), (''status_text'', PStr ''open''),
      (''raw'', PStr ''CS 4349.003 29 / 30 Open'')]
     (Map.empty(''CS 4349.003'' \<mapsto>
        [(''last_notified'', PStr ''2025-01-01T12:00:00+00:00''),
         (''last_status'', PStr ''open''), (''enrolled'', PInt 30)]))
     3600 = Inr True"
proof -
  let ?entry = "[(''last_notified'', PStr ''2025-01-01T12:00:00+00:00''),
         (''last_status'', PStr ''open''), (''enrolled'', PInt 30)]"
  let ?info = "[(''label'', PStr ''CS 4349.003''), (''enrolled'', PInt 29), (''capacity'', PInt 30),
      (''seats_available'', PNone), (''status_text'', PStr ''open''),
      (''raw'', PStr ''CS 4349.003 29 / 30 Open'')]"
  let ?dt = "\<lparr>micros = 1735732800000000, aware = True\<rparr>"
  have h1: "(Map.empty(''CS 4349.003'' \<mapsto> ?entry)) ''CS 4349.003'' = Some ?entry" by simp
  have h2: "dget ?entry ''last_notified'' = PStr ''2025-01-01T12:00:00+00:00''" by code_simp
  have h3: "''2025-01-01T12:00:00+00:00'' \<noteq> []" by simp
  have h4: "sample_fromisoformat ''2025-01-01T12:00:00+00:00'' = Some ?dt" by code_simp
  have h5: "aware ?dt" by simp
  have h6: "dget ?info ''enrolled'' = PInt 29" by code_simp
  have h7: "dget ?entry ''enrolled'' = PInt 30" by code_simp
  have h8: "(29::int) < 30" by simp
  have h9: "(0::int) \<le> 3600" by simp
  have h10: "(3600::int) < 2 ^ 34" by simp
  from runner_enrollment_drop
    [where notified = "Map.empty(''CS 4349.003'' \<mapsto> ?entry)" and label = "''CS 4349.003''"
       and fromisoformat = sample_fromisoformat and now = 1735736400000000
       and backoff_seconds = 3600,
     OF h1 h2 h3 h4 h5 h6 h7 h8 h9 h10]
  show ?thesis by simp
qed

text \<open>The example of the specification: open before and now, notified five minutes ago,
  stored enrollment 30, current enrollment 29. The decision is false.\<close>

theorem enrollment_drop_within_backoff_counterexample:
  "is_section_open
     [(''label'', PStr ''CS 4349.003''), (''enrolled'', PInt 29), (''capacity'', PInt 30),
      (''seats_available'', PNone), (''status_text'', PStr ''open''),
      (''raw'', PStr ''CS 4349.003 29 / 30 Open'')] = Inr True \<and>
   runner_should_notify sample_fromisoformat 1735733100000000 ''CS 4349.003''
     [(''label'', PStr ''CS 4349.003''), (''enrolled'', PInt 29), (''capacity'', PInt 30),
      (''seats_available'', PNone), (''status_text'', PStr ''open''),
      (''raw'', PStr ''CS 4349.003 29 / 30 Open'')]
     (Map.empty(''CS 4349.003'' \<mapsto>
        [(''last_notified'', PStr ''2025-01-01T12:00:00+00:00''),
         (''last_status'', PStr ''open''), (''enrolled'', PInt 30)]))
     3600 = Inr False"
  by code_simp

subsection \<open>Status change\<close>

lemma notifier_status_changed:
  assumes "state label = Some entry"
    and "dget entry ''last_notified'' = PStr s"
    and "fromisoformat s = Some dt"
    and "dget entry ''last_status'' \<noteq> status_word is_open"
  shows "notifier_should_notify fromisoformat now state label is_open = Inr True"
proof -
  from assms(2) have "entry \<noteq> []" by (auto simp: dget_simps)
  with assms show ?thesis
    by (simp add: notifier_should_notify_def parse_iso_def Let_def)
qed

lemma runner_status_changed:
  assumes "notified label = Some entry"
    and "dget entry ''last_notified'' = PStr s"
    and "s \<noteq> []"
    and "fromisoformat s = Some dt"
    and "aware dt"
    and "dget info ''status_text'' \<noteq> dget entry ''last_status''"
    and "0 \<le> backoff_seconds"
    and "backoff_seconds < 2 ^ 34"
  shows "runner_should_notify fromisoformat now label info notified backoff_seconds
           = Inr (now - micros dt \<ge> backoff_seconds * 1000000)"
  using assms
  by (simp add: runner_should_notify_def parse_iso_def aware_sub_def Let_def)

text \<open>
  C2, as the code has it. When the stored \<open>last_status\<close> differs from the current
  status, the decision of notifier.py is true whatever the time elapsed; the decision of
  runner.py (which compares \<open>status_text\<close>) is true exactly when the backoff has
  elapsed, and false within it. The backoff is any number of seconds from 0 up to
  \<open>2 ^ 34\<close> (3600 by default).
\<close>

theorem status_change_decisions:
  "(state label = Some entry \<and> dget entry ''last_notified'' = PStr s \<and>
    fromisoformat s = Some dt \<and> dget entry ''last_status'' \<noteq> status_word is_open
      \<longrightarrow> notifier_should_notify fromisoformat now state label is_open = Inr True) \<and>
   (notified label' = Some entry' \<and> dget entry' ''last_notified'' = PStr s' \<and> s' \<noteq> [] \<and>
    fromisoformat s' = Some dt' \<and> aware dt' \<and>
    dget info ''status_text'' \<noteq> dget entry' ''last_status'' \<and>
    0 \<le> backoff_seconds \<and> backoff_seconds < 2 ^ 34
      \<longrightarrow> runner_should_notify fromisoformat now' label' info notified backoff_seconds
            = Inr (now' - micros dt' \<ge> backoff_seconds * 1000000))"
proof (intro conjI impI)
  assume "state label = Some entry \<and> dget entry ''last_notified'' = PStr s \<and>
    fromisoformat s = Some dt \<and> dget entry ''last_status'' \<noteq> status_word is_open"
  then show "notifier_should_notify fromisoformat now state label is_open = Inr True"
    using notifier_status_changed
      [where state = state and label = label and entry = entry and s = s
         and fromisoformat = fromisoformat and dt = dt and is_open = is_open and now = now]
    by simp
next
  assume "notified label' = Some entry' \<and> dget entry' ''last_notified'' = PStr s' \<and> s' \<noteq> [] \<and>
    fromisoformat s' = Some dt' \<and> aware dt' \<and>
    dget info ''status_text'' \<noteq> dget entry' ''last_status'' \<and>
    0 \<le> backoff_seconds \<and> backoff_seconds < 2 ^ 34"
  then show "runner_should_notify fromisoformat now' label' info notified backoff_seconds
            = Inr (now' - micros dt' \<ge> backoff_seconds * 1000000)"
    using runner_status_changed
      [where notified = notified and label = label' and entry = entry' and s = s'
         and fromisoformat = fromisoformat and dt = dt' and info = info and now = now'
         and backoff_seconds = backoff_seconds]
    by simp
qed

theorem status_change_decisions_witness:
  "notifier_should_notify sample_fromisoformat 1735733100000000
     (Map.empty(''CS 4349.003'' \<mapsto>
        [(''last_notified'', PStr ''2025-01-01T12:00:00+00:00''),
         (''last_status'', PStr ''closed''), (''enrolled'', PInt 30)]))
     ''CS 4349.003'' True = Inr True \<and>
   runner_should_notify sample_fromisoformat 1735736400000000 ''CS 4349.003''
     [(''label'', PStr ''CS 4349.003''), (''enrolled'', PInt 12), (''capacity'', PInt 30),
      (''seats_available'', PNone), (''status_text'', PStr ''open''),
      (''raw'', PStr ''CS 4349.003 12 / 30 Open'')]
     (Map.empty(''CS 4349.003'' \<mapsto>
        [(''last_notified'', PStr ''2025-01-01T12:00:00+00:00''),
         (''last_status'', PStr ''closed''), (''enrolled'', PInt 30)]))
     3600 = Inr True"
proof -
  let ?entry = "[(''last_notified'', PStr ''2025-01-01T12:00:00+00:00''),
         (''last_status'', PStr ''closed''), (''enrolled'', PInt 30)]"
  let ?info = "[(''label'', PStr ''CS 4349.003''), (''enrolled'', PInt 12), (''capacity'', PInt 30),
      (''seats_available'', PNone), (''status_text'', PStr ''open''),
      (''raw'', PStr ''CS 4349.003 12 / 30 Open'')]"
  let ?state = "Map.empty(''CS 4349.003'' \<mapsto> ?entry)"
  let ?dt = "\<lparr>micros = 1735732800000000, aware = True\<rparr>"
  have h1: "?state ''CS 4349.003'' = Some ?entry" by simp
  have h2: "dget ?entry ''last_notified'' = PStr ''2025-01-01T12:00:00+00:00''" by code_simp
  have h3: "''2025-01-01T12:00:00+00:00'' \<noteq> []" by simp
  have h4: "sample_fromisoformat ''2025-01-01T12:00:00+00:00'' = Some ?dt" by code_simp
  have h5: "aware ?dt" by simp
  have h6: "dget ?entry ''last_status'' \<noteq> status_word True" by code_simp
  have h7: "dget ?info ''status_text'' \<noteq> dget ?entry ''last_status''" by code_simp
  have h8: "(0::int) \<le> 3600 \<and> (3600::int) < 2 ^ 34" by simp
  from status_change_decisions
    [where state = ?state and label = "''CS 4349.003''" and entry = ?entry
       and s = "''2025-01-01T12:00:00+00:00''" and fromisoformat = sample_fromisoformat
       and dt = ?dt and is_open = True and now = 1735733100000000
       and notified = ?state and label' = "''CS 4349.003''" and entry' = ?entry
       and s' = "''2025-01-01T12:00:00+00:00''" and dt' = ?dt and info = ?info
       and now' = 1735736400000000 and backoff_seconds = 3600]
    h1 h2 h3 h4 h5 h6 h7 h8
  show ?thesis by simp
qed

text \<open>Stored status \<open>closed\<close>, section now open, notified five minutes ago: the
  decision of runner.py is false.\<close>

theorem status_change_within_backoff_counterexample:
  "is_section_open
     [(''label'', PStr ''CS 4349.003''), (''enrolled'', PInt 12), (''capacity'', PInt 30),
      (''seats_available'', PNone), (''status_text'', PStr ''open''),
      (''raw'', PStr ''CS 4349.003 12 / 30 Open'')] = Inr True \<and>
   runner_should_notify sample_fromisoformat 1735733100000000 ''CS 4349.003''
     [(''label'', PStr ''CS 4349.003''), (''enrolled'', PInt 12), (''capacity'', PInt 30),
      (''seats_available'', PNone), (''status_text'', PStr ''open''),
      (''raw'', PStr ''CS 4349.003 12 / 30 Open'')]
     (Map.empty(''CS 4349.003'' \<mapsto>
        [(''last_notified'', PStr ''2025-01-01T12:00:00+00:00''),
         (''last_status'', PStr ''closed''), (''enrolled'', PInt 30)]))
     3600 = Inr False"
  by code_simp

subsection \<open>Status unchanged\<close>





subsection \<open>No entry, no usable timestamp\<close>

text \<open>
  C7. When the state holds no entry for the label, or the entry's \<open>last_notified\<close> is
  absent or is not a string that parses, both decisions are true.
\<close>

theorem missing_entry_or_timestamp_notifies:
  assumes "state label = None \<or>
           (\<exists>entry. state label = Some entry \<and>
              (\<forall>s. dget entry ''last_notified'' = PStr s \<longrightarrow> fromisoformat s = None))"
  shows "notifier_should_notify fromisoformat now state label is_open = Inr True \<and>
         runner_should_notify fromisoformat now' label info state backoff_seconds = Inr True"
proof (cases "state label")
  case None
  then show ?thesis
    by (simp add: notifier_should_notify_def runner_should_notify_def)
next
  case (Some entry)
  with assms have "\<forall>s. dget entry ''last_notified'' = PStr s \<longrightarrow> fromisoformat s = None"
    by simp
  then have "parse_iso fromisoformat (dget entry ''last_notified'') = None"
    by (cases "dget entry ''last_notified''") (simp_all add: parse_iso_def)
  with Some show ?thesis
    by (simp add: notifier_should_notify_def runner_should_notify_def Let_def)
qed
theorem missing_entry_or_timestamp_notifies_witness:
  "notifier_should_notify sample_fromisoformat 1735733100000000
     (Map.empty(''CS 4349.003'' \<mapsto>
        [(''last_status'', PStr ''open''),
         (''last_notified'', PStr ''last Tuesday'')]))
     ''CS 4349.003'' True = Inr True \<and>
   runner_should_notify sample_fromisoformat 1735733100000000 ''CS 4349.003''
     [(''label'', PStr ''CS 4349.003''), (''enrolled'', PInt 12), (''capacity'', PInt 30),
      (''seats_available'', PNone), (''status_text'', PStr ''open''),
      (''raw'', PStr ''CS 4349.003 12 / 30 Open'')]
     (Map.empty(''CS 4349.003'' \<mapsto>
        [(''last_status'', PStr ''open''),
         (''last_notified'', PStr ''last Tuesday'')]))
     3600 = Inr True"
proof -
  let ?entry = "[(''last_status'', PStr ''open''),
         (''last_notified'', PStr ''last Tuesday'')]"
  let ?state = "Map.empty(''CS 4349.003'' \<mapsto> ?entry)"
  have h1: "?state ''CS 4349.003'' = Some ?entry" by simp
  have h2: "dget ?entry ''last_notified'' = PStr ''last Tuesday''" by code_simp
  have h3: "sample_fromisoformat ''last Tuesday'' = None" by code_simp
  have "\<forall>s. dget ?entry ''last_notified'' = PStr s \<longrightarrow> sample_fromisoformat s = None"
    using h2 h3 by simp
  with h1 have "?state ''CS 4349.003'' = None \<or>
      (\<exists>entry. ?state ''CS 4349.003'' = Some entry \<and>
         (\<forall>s. dget entry ''last_notified'' = PStr s \<longrightarrow> sample_fromisoformat s = None))"
    by simp
  from missing_entry_or_timestamp_notifies
    [where state = ?state and label = "''CS 4349.003''"
       and fromisoformat = sample_fromisoformat, OF this]
  show ?thesis by simp
qed

section \<open>Properties of the state updates\<close>

lemma runner_check_label_found:
  assumes "find (\<lambda>r. dget r ''label'' = PStr label) rows = Some info"
  shows "runner_check_label fromisoformat now now_iso posts label rows notified =
           (if \<not> isl (is_section_open info) \<and>
               runner_should_notify fromisoformat now label info notified 3600 = Inr True \<and>
               notify_users posts = Inr ()
            then notified(label \<mapsto> [(''last_notified'', PStr now_iso),
                                    (''last_status'', dget info ''status_text''),
                                    (''enrolled'', dget info ''enrolled'')])
            else notified)"
  using assms
  by (cases "is_section_open info";
      cases "runner_should_notify fromisoformat now label info notified 3600";
      cases "notify_users posts")
     (simp_all add: runner_check_label_def runner_mark_notified_def)

lemma checker_notify_classified:
  assumes "is_section_open match = Inr open_bool"
  shows "checker_notify fromisoformat now now_iso webhook post match state =
           Inr (if \<not> open_bool
                then state(match_label match \<mapsto> [(''last_status'', PStr ''closed''),
                                                  (''last_notified'', PStr now_iso)])
                else if notifier_should_notify fromisoformat now state (match_label match) True
                          = Inr True \<and>
                        notify_open webhook post match = Inr True
                then state(match_label match \<mapsto> [(''last_status'', PStr ''open''),
                                                  (''last_notified'', PStr now_iso)])
                else state)"
  using assms
  by (cases "notifier_should_notify fromisoformat now state (match_label match) True";
      cases "notify_open webhook post match")
     (simp_all add: checker_notify_def notifier_mark_notified_def status_word_def Let_def)

text \<open>
  C5, as the code has it. The decisions write nothing; the entry of a label is written
  by \<open>mark_notified\<close> only, which replaces all its fields at once. One check of a label
  in runner.py writes the entry (\<open>last_notified\<close>, \<open>last_status\<close>, \<open>enrolled\<close>) when
  the decision is true and \<open>notify_users\<close> returns, and leaves the state as it is
  otherwise. In checker\_playwright.py a section classified closed always gets its entry
  written (status and timestamp, without any notification), and an open one only when the
  decision is true and \<open>notify_open\<close> returns true.
\<close>

theorem entry_written_by_mark_notified_only:
  "(find (\<lambda>r. dget r ''label'' = PStr label) rows = Some info
      \<longrightarrow> runner_check_label fromisoformat now now_iso posts label rows notified =
            (if \<not> isl (is_section_open info) \<and>
                runner_should_notify fromisoformat now label info notified 3600 = Inr True \<and>
                notify_users posts = Inr ()
             then notified(label \<mapsto> [(''last_notified'', PStr now_iso),
                                     (''last_status'', dget info ''status_text''),
                                     (''enrolled'', dget info ''enrolled'')])
             else notified)) \<and>
   (is_section_open match = Inr open_bool
      \<longrightarrow> checker_notify fromisoformat now' now_iso' webhook post match state =
            Inr (if \<not> open_bool
                 then state(match_label match \<mapsto> [(''last_status'', PStr ''closed''),
                                                   (''last_notified'', PStr now_iso')])
                 else if notifier_should_notify fromisoformat now' state (match_label match) True
                           = Inr True \<and>
                         notify_open webhook post match = Inr True
                 then state(match_label match \<mapsto> [(''last_status'', PStr ''open''),
                                                   (''last_notified'', PStr now_iso')])
                 else state))"
  by (simp add: runner_check_label_found checker_notify_classified)

theorem entry_written_by_mark_notified_only_witness:
  "runner_check_label sample_fromisoformat 1735732800000000 ''2025-01-01T12:00:00+00:00''
     [(Response 200 [(''id'', PStr ''7'')], Response 200 [])] ''CS 4349.003''
     [[(''label'', PStr ''CS 4349.003''), (''enrolled'', PInt 12), (''capacity'', PInt 30),
      (''seats_available'', PNone), (''status_text'', PStr ''open''),
      (''raw'', PStr ''CS 4349.003 12 / 30 Open'')]]
     Map.empty ''CS 4349.003''
     = Some [(''last_notified'', PStr ''2025-01-01T12:00:00+00:00''),
             (''last_status'', PStr ''open''), (''enrolled'', PInt 12)] \<and>
   checker_notify sample_fromisoformat 1735732800000000 ''2025-01-01T12:00:00'' True (Response 204 [])
     [(''label'', PStr ''CS 4349.003''), (''enrolled'', PInt 30), (''capacity'', PInt 30),
      (''seats_available'', PNone), (''status_text'', PStr ''full''),
      (''raw'', PStr ''CS 4349.003 30 / 30 Full'')]
     Map.empty
     = Inr (Map.empty(''CS 4349.003'' \<mapsto>
              [(''last_status'', PStr ''closed''), (''last_notified'', PStr ''2025-01-01T12:00:00'')]))"
proof -
  let ?info = "[(''label'', PStr ''CS 4349.003''), (''enrolled'', PInt 12), (''capacity'', PInt 30),
      (''seats_available'', PNone), (''status_text'', PStr ''open''),
      (''raw'', PStr ''CS 4349.003 12 / 30 Open'')]"
  let ?match = "[(''label'', PStr ''CS 4349.003''), (''enrolled'', PInt 30), (''capacity'', PInt 30),
      (''seats_available'', PNone), (''status_text'', PStr ''full''),
      (''raw'', PStr ''CS 4349.003 30 / 30 Full'')]"
  let ?posts = "[(Response 200 [(''id'', PStr ''7'')], Response 200 [])]"
  have h1: "find (\<lambda>r. dget r ''label'' = PStr ''CS 4349.003'') [?info] = Some ?info"
    by code_simp
  have h2: "\<not> isl (is_section_open ?info)" by code_simp
  have h3: "runner_should_notify sample_fromisoformat 1735732800000000 ''CS 4349.003'' ?info Map.empty 3600
              = Inr True"
    by code_simp
  have h4: "notify_users ?posts = Inr ()" by code_simp
  have h5: "dget ?info ''status_text'' = PStr ''open''" by code_simp
  have h6: "dget ?info ''enrolled'' = PInt 12" by code_simp
  have g1: "is_section_open ?match = Inr False" by code_simp
  have g2: "match_label ?match = ''CS 4349.003''" by code_simp
  from entry_written_by_mark_notified_only
    [where label = "''CS 4349.003''" and rows = "[?info]" and info = ?info
       and fromisoformat = sample_fromisoformat and now = 1735732800000000
       and now_iso = "''2025-01-01T12:00:00+00:00''" and posts = ?posts
       and notified = Map.empty and match = ?match and open_bool = False
       and now' = 1735732800000000 and now_iso' = "''2025-01-01T12:00:00''" and webhook = True
       and post = "Response 204 []" and state = Map.empty]
    h1 h2 h3 h4 h5 h6 g1 g2
  show ?thesis by simp
qed

text \<open>The stored entry says \<open>open\<close> with 29 enrolled, the section is now full with
  30 enrolled, five minutes after the last notification: the decision is false and the
  entry still says \<open>open\<close> and 29 after the check.\<close>

theorem stale_entry_counterexample:
  "runner_should_notify sample_fromisoformat 1735733100000000 ''CS 4349.003''
     [(''label'', PStr ''CS 4349.003''), (''enrolled'', PInt 30), (''capacity'', PInt 30),
      (''seats_available'', PNone), (''status_text'', PStr ''full''),
      (''raw'', PStr ''CS 4349.003 30 / 30 Full'')]
     (Map.empty(''CS 4349.003'' \<mapsto>
        [(''last_notified'', PStr ''2025-01-01T12:00:00+00:00''),
         (''last_status'', PStr ''open''), (''enrolled'', PInt 29)]))
     3600 = Inr False \<and>
   runner_check_label sample_fromisoformat 1735733100000000 ''2025-01-01T12:05:00+00:00''
     [(Response 200 [(''id'', PStr ''7'')], Response 200 [])] ''CS 4349.003''
     [[(''label'', PStr ''CS 4349.003''), (''enrolled'', PInt 30), (''capacity'', PInt 30),
      (''seats_available'', PNone), (''status_text'', PStr ''full''),
      (''raw'', PStr ''CS 4349.003 30 / 30 Full'')]]
     (Map.empty(''CS 4349.003'' \<mapsto>
        [(''last_notified'', PStr ''2025-01-01T12:00:00+00:00''),
         (''last_status'', PStr ''open''), (''enrolled'', PInt 29)]))
     ''CS 4349.003''
     = Some [(''last_notified'', PStr ''2025-01-01T12:00:00+00:00''),
         (''last_status'', PStr ''open''), (''enrolled'', PInt 29)]"
  by code_simp

subsection \<open>Delivery\<close>

text \<open>In checker\_playwright.py a delivery that fails (\<open>notify_open\<close> returns false or
  raises) leaves the state as it is.\<close>

lemma checker_notify_failed_delivery:
  assumes "is_section_open match = Inr True"
    and "notify_open webhook post match \<noteq> Inr True"
  shows "checker_notify fromisoformat now now_iso webhook post match state = Inr state"
  using assms by (simp add: checker_notify_classified)

text \<open>
  C6. The state is to be written only after a confirmed delivery. In runner.py it is not
  so: \<open>notify_users\<close> returns normally when Discord answers 403 to the request opening
  the DM channel, the entry of the label is written, and five minutes later the decision
  is false, so the notification is not tried again.
\<close>

theorem runner_marks_notified_after_failed_delivery:
  "notify_users [(Response 403 [], Response 403 [])] = Inr () \<and>
   runner_check_label sample_fromisoformat 1735732800000000 ''2025-01-01T12:00:00+00:00''
     [(Response 403 [], Response 403 [])] ''CS 4349.003''
     [[(''label'', PStr ''CS 4349.003''), (''enrolled'', PInt 12), (''capacity'', PInt 30),
      (''seats_available'', PNone), (''status_text'', PStr ''open''),
      (''raw'', PStr ''CS 4349.003 12 / 30 Open'')]]
     Map.empty ''CS 4349.003''
     = Some [(''last_notified'', PStr ''2025-01-01T12:00:00+00:00''),
             (''last_status'', PStr ''open''), (''enrolled'', PInt 12)] \<and>
   runner_should_notify sample_fromisoformat 1735733100000000 ''CS 4349.003''
     [(''label'', PStr ''CS 4349.003''), (''enrolled'', PInt 12), (''capacity'', PInt 30),
      (''seats_available'', PNone), (''status_text'', PStr ''open''),
      (''raw'', PStr ''CS 4349.003 12 / 30 Open'')]
     (runner_check_label sample_fromisoformat 1735732800000000 ''2025-01-01T12:00:00+00:00''
        [(Response 403 [], Response 403 [])] ''CS 4349.003''
        [[(''label'', PStr ''CS 4349.003''), (''enrolled'', PInt 12), (''capacity'', PInt 30),
      (''seats_available'', PNone), (''status_text'', PStr ''open''),
      (''raw'', PStr ''CS 4349.003 12 / 30 Open'')]]
        Map.empty)
     3600 = Inr False"
  by code_simp

end
